theory Spec2Isabelle
  imports Complex_Main
begin

section \<open>The anomaly detection engine of \<^verbatim>\<open>anomaly_detector.py\<close>\<close>

text \<open>
  A shallow embedding of the class \<^verbatim>\<open>AnomalyDetector\<close>. The object's fields, its
  console output and the content of the anomalies file form one state record that every
  method takes and returns. An exception is a value \<open>Inl e\<close>; the state returned beside it
  is the state at the moment the exception was raised, since Python does not undo the
  assignments made before a raise.
\<close>

subsection \<open>Data\<close>

datatype error =
    KeyError string | TypeError | ValueError string | UnicodeDecodeError | OSError

text \<open>
  A telemetry data point is a dict read from one line of JSON. The code reads seven keys;
  each of them may be absent, which is \<open>None\<close> here. The sensor readings are floats:
  they are modelled as reals, which is exact for the only arithmetic the code itself does
  on them, the comparisons with 8.0, 6.0 and 4.0.
\<close>

record telemetry =
  timestamp :: "string option"
  altitude :: "real option"
  airspeed :: "real option"
  pitch :: "real option"
  vibration :: "real option"
  engineFailure :: "bool option"
  trainingPhase :: "bool option"

datatype severity = LOW | MEDIUM | HIGH | CRITICAL

text \<open>The dict built for a detected anomaly: all eight keys are present.\<close>

record anomaly =
  an_timestamp :: string
  an_altitude :: real
  an_airspeed :: real
  an_pitch :: real
  an_vibration :: real
  an_engineFailure :: bool
  an_detected_at :: string
  an_severity :: severity

text \<open>The lines the program prints, one constructor for each \<^verbatim>\<open>print\<close> of the source.\<close>

datatype event =
    NotEnoughData
  | ModelTrained nat
  | NotTrainedSkipping
  | NotAnAnomaly telemetry
  | Retraining
  | AnomalyDetected telemetry
  | SavedAnomalies nat
  | Detecting nat
  | Detected nat
  | NoNewData
  | LoopError error

text \<open>
  What \<^verbatim>\<open>open\<close> and \<^verbatim>\<open>json.load\<close> find at the path of the anomalies file:
  \<^item> \<open>NoFile\<close>: no file, \<^verbatim>\<open>open\<close> raises \<^verbatim>\<open>FileNotFoundError\<close>;
  \<^item> \<open>Unreadable\<close>: something that cannot be opened or read, \<^verbatim>\<open>open\<close> or the read
    raises another \<^verbatim>\<open>OSError\<close> (\<^verbatim>\<open>PermissionError\<close>, \<^verbatim>\<open>IsADirectoryError\<close>);
  \<^item> \<open>Undecodable\<close>: bytes that are not text in the encoding of the file object, the
    read inside \<^verbatim>\<open>json.load\<close> raises \<^verbatim>\<open>UnicodeDecodeError\<close>;
  \<^item> \<open>NotJson\<close>: text that is not JSON, the empty file included, \<^verbatim>\<open>json.load\<close>
    raises \<^verbatim>\<open>JSONDecodeError\<close>;
  \<^item> \<open>JsonArray\<close>: a JSON array, \<^verbatim>\<open>json.load\<close> returns the list;
  \<^item> \<open>JsonNonArray\<close>: another JSON value, \<^verbatim>\<open>json.load\<close> returns it.

  \<^verbatim>\<open>json.dump\<close> followed by \<^verbatim>\<open>json.load\<close> gives the dumped list back.
\<close>

datatype store_file =
    NoFile | Unreadable | Undecodable | NotJson | JsonArray "anomaly list" | JsonNonArray

text \<open>
  The fields of \<^verbatim>\<open>self\<close> that the modelled methods use, then the console and the
  anomalies file. The two scikit-learn objects are opaque: \<open>'sc\<close> is the state of the
  \<^verbatim>\<open>StandardScaler\<close>, \<open>'fo\<close> the state of the \<^verbatim>\<open>IsolationForest\<close>.
\<close>

record ('sc, 'fo) detector =
  model :: 'fo
  scaler :: 'sc
  is_trained :: bool
  training_data :: "telemetry list"
  incorrect_anomalies :: int
  console :: "event list"
  anomalies_file :: store_file

text \<open>
  The four scikit-learn calls of the source, taken as parameters. A fitting call changes
  the object and may raise; the object it leaves behind is returned in both cases.
  \<^verbatim>\<open>transform\<close> and \<^verbatim>\<open>predict\<close> do not change the object.
\<close>

record ('sc, 'fo) sklearn =
  scaler_fit_transform :: "'sc \<Rightarrow> real list list \<Rightarrow> (error + real list list) \<times> 'sc"
  scaler_transform :: "'sc \<Rightarrow> real list list \<Rightarrow> error + real list list"
  model_fit :: "'fo \<Rightarrow> real list list \<Rightarrow> (error + unit) \<times> 'fo"
  model_predict :: "'fo \<Rightarrow> real list list \<Rightarrow> error + int list"

subsection \<open>Helpers for exceptions, subscripts and printing\<close>

definition ebind :: "error + 'a \<Rightarrow> ('a \<Rightarrow> error + 'b) \<Rightarrow> error + 'b" where
  "ebind r f = (case r of Inl e \<Rightarrow> Inl e | Inr x \<Rightarrow> f x)"

text \<open>\<^verbatim>\<open>d[k]\<close>: a \<^verbatim>\<open>KeyError\<close> when the key is absent.\<close>

definition getitem :: "string \<Rightarrow> 'a option \<Rightarrow> error + 'a" where
  "getitem k v = (case v of None \<Rightarrow> Inl (KeyError k) | Some x \<Rightarrow> Inr x)"

definition print :: "event \<Rightarrow> ('sc, 'fo) detector \<Rightarrow> ('sc, 'fo) detector" where
  "print e s = s\<lparr>console := console s @ [e]\<rparr>"

subsection \<open>\<^verbatim>\<open>__init__\<close>\<close>

text \<open>
  The constructor, given the two unfitted scikit-learn objects and what is on disk at the
  path of the anomalies file.
\<close>

definition init :: "'fo \<Rightarrow> 'sc \<Rightarrow> store_file \<Rightarrow> ('sc, 'fo) detector" where
  "init fo sc f =
     \<lparr>model = fo, scaler = sc, is_trained = False, training_data = [],
      incorrect_anomalies = 0, console = [], anomalies_file = f\<rparr>"

subsection \<open>\<^verbatim>\<open>extract_features\<close>\<close>

definition extract_features :: "telemetry \<Rightarrow> error + real list" where
  "extract_features data_point =
     ebind (getitem ''altitude'' (altitude data_point)) (\<lambda>a.
     ebind (getitem ''airspeed'' (airspeed data_point)) (\<lambda>v.
     ebind (getitem ''pitch'' (pitch data_point)) (\<lambda>p.
     ebind (getitem ''vibration'' (vibration data_point)) (\<lambda>g.
     Inr [a, v, p, g]))))"

text \<open>
  The comprehension \<^verbatim>\<open>[self.extract_features(point) for point in ...]\<close>: the first
  point that raises ends it.
\<close>

fun features_of :: "telemetry list \<Rightarrow> error + real list list" where
  "features_of [] = Inr []"
| "features_of (point # points) =
     ebind (extract_features point) (\<lambda>f.
     ebind (features_of points) (\<lambda>fs. Inr (f # fs)))"

subsection \<open>\<^verbatim>\<open>train_model\<close>\<close>

definition train_model ::
  "('sc, 'fo) sklearn \<Rightarrow> ('sc, 'fo) detector \<Rightarrow> telemetry list \<Rightarrow>
     (error + bool) \<times> ('sc, 'fo) detector" where
  "train_model lib s td =
     (if length td < 120 then (Inr False, print NotEnoughData s)
      else case features_of td of
        Inl e \<Rightarrow> (Inl e, s)
      | Inr features \<Rightarrow>
         (case scaler_fit_transform lib (scaler s) features of
            (Inl e, sc) \<Rightarrow> (Inl e, s\<lparr>scaler := sc\<rparr>)
          | (Inr features_scaled, sc) \<Rightarrow>
             (case model_fit lib (model s) features_scaled of
                (Inl e, fo) \<Rightarrow> (Inl e, s\<lparr>scaler := sc, model := fo\<rparr>)
              | (Inr u, fo) \<Rightarrow>
                 (Inr True,
                  print (ModelTrained (length td))
                    (s\<lparr>scaler := sc, model := fo, is_trained := True\<rparr>)))))"

subsection \<open>\<^verbatim>\<open>calculate_severity\<close>\<close>

definition calculate_severity :: "telemetry \<Rightarrow> error + severity" where
  "calculate_severity data_point =
     ebind (getitem ''vibration'' (vibration data_point)) (\<lambda>vib.
       Inr (if vib > 8.0 then CRITICAL
            else if vib > 6.0 then HIGH
            else if vib > 4.0 then MEDIUM
            else LOW))"

text \<open>The order of the four tiers, as a rank.\<close>

fun severity_rank :: "severity \<Rightarrow> nat" where
  "severity_rank LOW = 0"
| "severity_rank MEDIUM = 1"
| "severity_rank HIGH = 2"
| "severity_rank CRITICAL = 3"

subsection \<open>\<^verbatim>\<open>detect_anomalies\<close>\<close>

text \<open>
  The dict literal of lines 78 to 87, its entries evaluated in the order written. The
  second argument is what \<^verbatim>\<open>datetime.now().isoformat()\<close> returns at that moment.
\<close>

definition new_anomaly :: "string \<Rightarrow> telemetry \<Rightarrow> error + anomaly" where
  "new_anomaly detected point =
     ebind (getitem ''timestamp'' (timestamp point)) (\<lambda>t.
     ebind (getitem ''altitude'' (altitude point)) (\<lambda>a.
     ebind (getitem ''airspeed'' (airspeed point)) (\<lambda>v.
     ebind (getitem ''pitch'' (pitch point)) (\<lambda>p.
     ebind (getitem ''vibration'' (vibration point)) (\<lambda>g.
     ebind (getitem ''engineFailure'' (engineFailure point)) (\<lambda>ef.
     ebind (calculate_severity point) (\<lambda>sev.
     Inr \<lparr>an_timestamp = t, an_altitude = a, an_airspeed = v, an_pitch = p,
          an_vibration = g, an_engineFailure = ef, an_detected_at = detected,
          an_severity = sev\<rparr>)))))))"

text \<open>
  The \<^verbatim>\<open>for\<close> loop of lines 76 to 99 over \<^verbatim>\<open>enumerate(zip(data_points, predictions))\<close>,
  with the list \<^verbatim>\<open>anomalies\<close> as accumulator. \<open>now i\<close> is the clock reading while
  the loop is at index \<open>i\<close>.
\<close>

fun detect_loop ::
  "('sc, 'fo) sklearn \<Rightarrow> (nat \<Rightarrow> string) \<Rightarrow> ('sc, 'fo) detector \<Rightarrow>
     (nat \<times> telemetry \<times> int) list \<Rightarrow> anomaly list \<Rightarrow>
     (error + anomaly list) \<times> ('sc, 'fo) detector" where
  "detect_loop lib now s [] anomalies = (Inr anomalies, s)"
| "detect_loop lib now s ((i, point, pred) # rest) anomalies =
     (if pred = - 1 then
        (case new_anomaly (now i) point of
           Inl e \<Rightarrow> (Inl e, s)
         | Inr anomaly \<Rightarrow>
            if \<not> an_engineFailure anomaly then
              (let s1 = print (NotAnAnomaly point) s;
                   s2 = s1\<lparr>training_data := training_data s1 @ [point]\<rparr>;
                   s3 = s2\<lparr>incorrect_anomalies := incorrect_anomalies s2 + 1\<rparr>
               in if incorrect_anomalies s3 > 10 then
                    (case train_model lib (print Retraining s3) (training_data s3) of
                       (Inl e, s4) \<Rightarrow> (Inl e, s4)
                     | (Inr trained, s4) \<Rightarrow>
                        detect_loop lib now (s4\<lparr>incorrect_anomalies := 0\<rparr>) rest anomalies)
                  else detect_loop lib now s3 rest anomalies)
            else detect_loop lib now (print (AnomalyDetected point) s) rest
                   (anomalies @ [anomaly]))
      else detect_loop lib now s rest anomalies)"

text \<open>
  Lines 69 to 73: the features of the whole batch, scaled with the scaler as it is, and
  the labels the model gives them (\<open>- 1\<close> for an anomaly, \<open>1\<close> for normal).
\<close>

definition predict_batch ::
  "('sc, 'fo) sklearn \<Rightarrow> ('sc, 'fo) detector \<Rightarrow> telemetry list \<Rightarrow> error + int list" where
  "predict_batch lib s data_points =
     ebind (features_of data_points) (\<lambda>features.
     ebind (scaler_transform lib (scaler s) features) (\<lambda>features_scaled.
     model_predict lib (model s) features_scaled))"

definition detect_anomalies ::
  "('sc, 'fo) sklearn \<Rightarrow> (nat \<Rightarrow> string) \<Rightarrow> ('sc, 'fo) detector \<Rightarrow> telemetry list \<Rightarrow>
     (error + anomaly list) \<times> ('sc, 'fo) detector" where
  "detect_anomalies lib now s data_points =
     (if \<not> is_trained s then (Inr [], print NotTrainedSkipping s)
      else case predict_batch lib s data_points of
        Inl e \<Rightarrow> (Inl e, s)
      | Inr predictions \<Rightarrow>
         detect_loop lib now s (enumerate 0 (zip data_points predictions)) [])"

subsection \<open>\<^verbatim>\<open>save_anomalies\<close> and \<^verbatim>\<open>clean_anomalies\<close>\<close>

text \<open>
  Reading catches \<^verbatim>\<open>FileNotFoundError\<close> and \<^verbatim>\<open>JSONDecodeError\<close> only: every other
  error of \<^verbatim>\<open>open\<close> and \<^verbatim>\<open>json.load\<close> leaves \<open>save_anomalies\<close>. A file holding JSON
  that is not an array is read without error, and the \<^verbatim>\<open>+\<close> of line 126 then raises
  \<^verbatim>\<open>TypeError\<close>. All of these are raised before the file is opened for writing.
\<close>

definition save_anomalies ::
  "('sc, 'fo) detector \<Rightarrow> anomaly list \<Rightarrow> (error + unit) \<times> ('sc, 'fo) detector" where
  "save_anomalies s new_anomalies =
     (case (case anomalies_file s of
              NoFile \<Rightarrow> Inr []
            | Unreadable \<Rightarrow> Inl OSError
            | Undecodable \<Rightarrow> Inl UnicodeDecodeError
            | NotJson \<Rightarrow> Inr []
            | JsonArray existing_anomalies \<Rightarrow> Inr existing_anomalies
            | JsonNonArray \<Rightarrow> Inl TypeError) of
        Inl e \<Rightarrow> (Inl e, s)
      | Inr existing_anomalies \<Rightarrow>
         (let all_anomalies = existing_anomalies @ new_anomalies
          in (Inr (),
              print (SavedAnomalies (length new_anomalies))
                (s\<lparr>anomalies_file := JsonArray all_anomalies\<rparr>))))"

definition clean_anomalies :: "('sc, 'fo) detector \<Rightarrow> ('sc, 'fo) detector" where
  "clean_anomalies s = s\<lparr>anomalies_file := NotJson\<rparr>"

subsection \<open>One pass of \<^verbatim>\<open>run_detection_loop\<close>\<close>

text \<open>\<^verbatim>\<open>d.get('trainingPhase', True)\<close>\<close>

definition get_trainingPhase :: "telemetry \<Rightarrow> bool" where
  "get_trainingPhase d = (case trainingPhase d of None \<Rightarrow> True | Some b \<Rightarrow> b)"

text \<open>
  The body of the \<^verbatim>\<open>try\<close> of lines 144 to 166, from the data that
  \<^verbatim>\<open>load_telemetry_data\<close> returned.
\<close>

definition cycle_body ::
  "('sc, 'fo) sklearn \<Rightarrow> (nat \<Rightarrow> string) \<Rightarrow> ('sc, 'fo) detector \<Rightarrow> telemetry list \<Rightarrow>
     (error + unit) \<times> ('sc, 'fo) detector" where
  "cycle_body lib now s new_data =
     (if new_data \<noteq> [] then
        (let training = filter get_trainingPhase new_data;
             testing = filter (\<lambda>d. \<not> get_trainingPhase d) new_data
         in case (if training \<noteq> [] \<and> \<not> is_trained s
                  then (let s0 = s\<lparr>training_data := training_data s @ training\<rparr>
                        in train_model lib s0 (training_data s0))
                  else (Inr True, s)) of
              (Inl e, s1) \<Rightarrow> (Inl e, s1)
            | (Inr trained, s1) \<Rightarrow>
               if testing \<noteq> [] \<and> is_trained s1 then
                 (case detect_anomalies lib now (print (Detecting (length testing)) s1) testing of
                    (Inl e, s2) \<Rightarrow> (Inl e, s2)
                  | (Inr anomalies, s2) \<Rightarrow>
                     (let s3 = print (Detected (length anomalies)) s2
                      in if anomalies \<noteq> [] then save_anomalies s3 anomalies
                         else (Inr (), s3)))
               else (Inr (), s1))
      else (Inr (), print NoNewData s))"

text \<open>
  One pass of the \<^verbatim>\<open>while True\<close> loop: the body, then \<^verbatim>\<open>time.sleep(2)\<close>, or the
  handler of \<^verbatim>\<open>except Exception\<close>, which prints the error and sleeps 5 seconds. The
  first component is the time slept.
\<close>

definition run_detection_cycle ::
  "('sc, 'fo) sklearn \<Rightarrow> (nat \<Rightarrow> string) \<Rightarrow> ('sc, 'fo) detector \<Rightarrow> telemetry list \<Rightarrow>
     nat \<times> ('sc, 'fo) detector" where
  "run_detection_cycle lib now s new_data =
     (case cycle_body lib now s new_data of
        (Inr u, s') \<Rightarrow> (2, s')
      | (Inl e, s') \<Rightarrow> (5, print (LoopError e) s'))"

subsection \<open>Vocabulary of the properties\<close>

text \<open>
  The model state of the specification: the trained flag, the normalisation parameters
  and the decision boundary.
\<close>

definition model_state :: "('sc, 'fo) detector \<Rightarrow> bool \<times> 'sc \<times> 'fo" where
  "model_state s = (is_trained s, scaler s, model s)"

text \<open>
  An entry of the enumerated batch is a false positive when its label is \<open>- 1\<close> and the
  point says \<^verbatim>\<open>engineFailure\<close> is false, a true positive when the label is \<open>- 1\<close>
  and the point says it is true.
\<close>

definition false_positive :: "nat \<times> telemetry \<times> int \<Rightarrow> bool" where
  "false_positive item =
     (case item of (i, point, pred) \<Rightarrow> pred = - 1 \<and> engineFailure point = Some False)"

definition true_positive :: "nat \<times> telemetry \<times> int \<Rightarrow> bool" where
  "true_positive item =
     (case item of (i, point, pred) \<Rightarrow> pred = - 1 \<and> engineFailure point = Some True)"

text \<open>
  Lines 89 to 91: the state once a false positive is printed, appended to the buffer and
  counted.
\<close>

definition misjudged :: "telemetry \<Rightarrow> ('sc, 'fo) detector \<Rightarrow> ('sc, 'fo) detector" where
  "misjudged point s =
     s\<lparr>console := console s @ [NotAnAnomaly point],
       training_data := training_data s @ [point],
       incorrect_anomalies := incorrect_anomalies s + 1\<rparr>"

text \<open>The false positives and the true positives of a batch, given its labels.\<close>

definition false_positives :: "telemetry list \<Rightarrow> int list \<Rightarrow> (nat \<times> telemetry \<times> int) list" where
  "false_positives data_points predictions =
     filter false_positive (enumerate 0 (zip data_points predictions))"

definition true_positives :: "telemetry list \<Rightarrow> int list \<Rightarrow> (nat \<times> telemetry \<times> int) list" where
  "true_positives data_points predictions =
     filter true_positive (enumerate 0 (zip data_points predictions))"

text \<open>A scikit-learn whose two fitting calls never raise.\<close>

definition reliable :: "('sc, 'fo) sklearn \<Rightarrow> bool" where
  "reliable lib \<longleftrightarrow>
     (\<forall>sc X. \<exists>Y sc'. scaler_fit_transform lib sc X = (Inr Y, sc')) \<and>
     (\<forall>fo X. \<exists>fo'. model_fit lib fo X = (Inr (), fo'))"

text \<open>A point lacks a feature when one of the four keys of \<open>extract_features\<close> is absent.\<close>

definition lacks_feature :: "telemetry \<Rightarrow> bool" where
  "lacks_feature point \<longleftrightarrow>
     altitude point = None \<or> airspeed point = None \<or> pitch point = None \<or>
     vibration point = None"

subsection \<open>Concrete inputs\<close>

text \<open>
  A complete scoring-phase point with the given timestamp, vibration and
  \<^verbatim>\<open>engineFailure\<close> flag.
\<close>

definition sample_point :: "string \<Rightarrow> real \<Rightarrow> bool \<Rightarrow> telemetry" where
  "sample_point t vib ef =
     \<lparr>timestamp = Some t, altitude = Some 1000, airspeed = Some 250, pitch = Some 2,
      vibration = Some vib, engineFailure = Some ef, trainingPhase = Some False\<rparr>"

text \<open>
  A small stand-in for scikit-learn: the scaler is the identity, fitting the model
  remembers the largest vibration of the sample (the fourth feature), and a vector is an
  outlier when its vibration is above it.
\<close>

definition toy_sklearn :: "(unit, real) sklearn" where
  "toy_sklearn =
     \<lparr>scaler_fit_transform = (\<lambda>sc X. (Inr X, sc)),
      scaler_transform = (\<lambda>sc X. Inr X),
      model_fit = (\<lambda>fo X. (Inr (), foldl (\<lambda>t row. max t (row ! 3)) 0 X)),
      model_predict = (\<lambda>fo X. Inr (map (\<lambda>row. if row ! 3 > fo then - 1 else 1) X))\<rparr>"

text \<open>A trained detector for it: the boundary, the buffer and the counter are given.\<close>

definition toy_detector :: "real \<Rightarrow> telemetry list \<Rightarrow> int \<Rightarrow> (unit, real) detector" where
  "toy_detector boundary buffer n =
     \<lparr>model = boundary, scaler = (), is_trained = True, training_data = buffer,
      incorrect_anomalies = n, console = [], anomalies_file = NotJson\<rparr>"

text \<open>A buffer of 120 baseline points, and batches of ten and eleven false positives.\<close>

definition baseline :: "telemetry list" where
  "baseline = replicate 120 (sample_point ''t0'' 2 False)"



definition clock :: "nat \<Rightarrow> string" where
  "clock i = ''2024-01-01T00:00:00''"

text \<open>
  Eleven false positives in two batches, and the detector after a call on the first of
  them.
\<close>

definition six_false_positives :: "telemetry list" where
  "six_false_positives =
     map (\<lambda>t. sample_point t 9 False) [''b01'', ''b02'', ''b03'', ''b04'', ''b05'', ''b06'']"



definition sample_anomaly :: "string \<Rightarrow> real \<Rightarrow> severity \<Rightarrow> anomaly" where
  "sample_anomaly t vib sev =
     \<lparr>an_timestamp = t, an_altitude = 1000, an_airspeed = 250, an_pitch = 2,
      an_vibration = vib, an_engineFailure = True, an_detected_at = ''2024-01-01T00:00:00'',
      an_severity = sev\<rparr>"

section \<open>Basic facts\<close>

lemma print_simps [simp]:
  "model (print e s) = model s"
  "scaler (print e s) = scaler s"
  "is_trained (print e s) = is_trained s"
  "training_data (print e s) = training_data s"
  "incorrect_anomalies (print e s) = incorrect_anomalies s"
  "anomalies_file (print e s) = anomalies_file s"
  "console (print e s) = console s @ [e]"
  by (simp_all add: print_def)

lemma positive_simps [simp]:
  "false_positive (i, p, pred) \<longleftrightarrow> pred = - 1 \<and> engineFailure p = Some False"
  "true_positive (i, p, pred) \<longleftrightarrow> pred = - 1 \<and> engineFailure p = Some True"
  by (simp_all add: false_positive_def true_positive_def)

lemma count_list_app: "count_list (xs @ ys) x = count_list xs x + count_list ys x"
  by (induction xs) auto

lemma features_of_append:
  "features_of (xs @ ys) =
     ebind (features_of xs) (\<lambda>fs. ebind (features_of ys) (\<lambda>gs. Inr (fs @ gs)))"
  by (induction xs) (auto simp: ebind_def split: sum.splits)

lemma features_of_replicate:
  "extract_features p = Inr f \<Longrightarrow> features_of (replicate n p) = Inr (replicate n f)"
  by (induction n) (auto simp: ebind_def)

lemma features_of_lacking:
  "p \<in> set pts \<Longrightarrow> lacks_feature p \<Longrightarrow> \<exists>k. features_of pts = Inl (KeyError k)"
proof (induction pts)
  case Nil
  then show ?case by simp
next
  case (Cons q pts)
  show ?case
  proof (cases "extract_features q")
    case (Inl e)
    then obtain k where "e = KeyError k"
      by (auto simp: extract_features_def ebind_def getitem_def split: option.splits)
    with Inl show ?thesis by (simp add: ebind_def)
  next
    case (Inr f)
    then have "\<not> lacks_feature q"
      by (auto simp: extract_features_def ebind_def getitem_def lacks_feature_def
          split: option.splits)
    with Cons.prems have "p \<in> set pts" by auto
    from Cons.IH [OF this Cons.prems(2)] Inr show ?thesis
      by (auto simp: ebind_def)
  qed
qed

subsection \<open>What \<open>train_model\<close> leaves alone\<close>

lemma train_model_frame:
  "training_data (snd (train_model lib s td)) = training_data s"
  "incorrect_anomalies (snd (train_model lib s td)) = incorrect_anomalies s"
  "anomalies_file (snd (train_model lib s td)) = anomalies_file s"
  by (simp_all add: train_model_def split: sum.splits prod.splits)



subsection \<open>Evaluating the stand-in library\<close>

lemma toy_boundary_replicate:
  "foldl (\<lambda>t row. max t (row ! 3)) t (replicate n r) = (if n = 0 then t else max t (r ! 3))"
  by (induction n arbitrary: t) (auto simp: max_def)

section \<open>Severity\<close>

text \<open>
  Claim C7. The severity depends on the vibration alone, is defined for every vibration
  reading, and does not decrease when the vibration grows, the tiers being ordered
  LOW, MEDIUM, HIGH, CRITICAL. At 9.0 it is CRITICAL, at 7.0 HIGH, at 5.0 MEDIUM and at
  3.0 LOW.
\<close>

theorem calculate_severity_monotone:
  "(vibration p = Some v \<and> vibration q = Some w \<and> v \<le> w \<longrightarrow>
      (\<exists>a b. calculate_severity p = Inr a \<and> calculate_severity q = Inr b \<and>
             severity_rank a \<le> severity_rank b))
   \<and> (vibration p = vibration q \<and> vibration p \<noteq> None \<longrightarrow>
        calculate_severity p = calculate_severity q)
   \<and> (vibration p = Some 9.0 \<longrightarrow> calculate_severity p = Inr CRITICAL)
   \<and> (vibration p = Some 7.0 \<longrightarrow> calculate_severity p = Inr HIGH)
   \<and> (vibration p = Some 5.0 \<longrightarrow> calculate_severity p = Inr MEDIUM)
   \<and> (vibration p = Some 3.0 \<longrightarrow> calculate_severity p = Inr LOW)"
  by (auto simp: calculate_severity_def ebind_def getitem_def)

theorem calculate_severity_monotone_witness:
  "(\<exists>a b. calculate_severity (sample_point ''t'' 3 True) = Inr a \<and>
          calculate_severity (sample_point ''u'' 9 False) = Inr b \<and>
          severity_rank a \<le> severity_rank b)
   \<and> calculate_severity (sample_point ''t'' 9 True) = calculate_severity (sample_point ''u'' 9 False)
   \<and> calculate_severity (sample_point ''t'' 9 True) = Inr CRITICAL
   \<and> calculate_severity (sample_point ''t'' 7 True) = Inr HIGH
   \<and> calculate_severity (sample_point ''t'' 5 True) = Inr MEDIUM
   \<and> calculate_severity (sample_point ''t'' 3 True) = Inr LOW"
  using calculate_severity_monotone [of "sample_point ''t'' 3 True" 3 "sample_point ''u'' 9 False" 9]
    calculate_severity_monotone [of "sample_point ''t'' 9 True" 9 "sample_point ''u'' 9 False" 9]
    calculate_severity_monotone [of "sample_point ''u'' 9 False" 9 "sample_point ''u'' 9 False" 9]
    calculate_severity_monotone [of "sample_point ''t'' 7 True" 7 "sample_point ''t'' 7 True" 7]
    calculate_severity_monotone [of "sample_point ''t'' 5 True" 5 "sample_point ''t'' 5 True" 5]
    calculate_severity_monotone [of "sample_point ''t'' 3 True" 3 "sample_point ''t'' 3 True" 3]
  by (simp add: sample_point_def)

section \<open>The anomaly store\<close>




section \<open>Training\<close>

text \<open>
  Claim C5. With fewer than 120 points \<open>train_model\<close> reports failure (it returns
  \<open>False\<close> after printing that the data are not enough) and leaves the model state, the
  buffer and the counter as they were. With exactly 120 points that have their four
  features, and scikit-learn fitting them without raising, it returns \<open>True\<close> and the
  detector is trained.
\<close>

theorem train_model_threshold:
  "(length td < 120 \<longrightarrow>
      fst (train_model lib s td) = Inr False
      \<and> model_state (snd (train_model lib s td)) = model_state s
      \<and> training_data (snd (train_model lib s td)) = training_data s
      \<and> incorrect_anomalies (snd (train_model lib s td)) = incorrect_anomalies s
      \<and> console (snd (train_model lib s td)) = console s @ [NotEnoughData])
   \<and> (length td = 120 \<and> features_of td = Inr features
       \<and> scaler_fit_transform lib (scaler s) features = (Inr features_scaled, sc)
       \<and> model_fit lib (model s) features_scaled = (Inr (), fo) \<longrightarrow>
      fst (train_model lib s td) = Inr True
      \<and> model_state (snd (train_model lib s td)) = (True, sc, fo))"
  by (simp add: train_model_def model_state_def)

theorem train_model_threshold_witness:
  "fst (train_model toy_sklearn (init 0 () NotJson) (replicate 119 (sample_point ''t'' 2 False)))
     = Inr False
   \<and> model_state (snd (train_model toy_sklearn (init 0 () NotJson)
        (replicate 119 (sample_point ''t'' 2 False)))) = (False, (), 0)
   \<and> fst (train_model toy_sklearn (init 0 () NotJson) (replicate 120 (sample_point ''t'' 2 False)))
     = Inr True
   \<and> model_state (snd (train_model toy_sklearn (init 0 () NotJson)
        (replicate 120 (sample_point ''t'' 2 False)))) = (True, (), 2)"
proof -
  have f: "features_of (replicate 120 (sample_point ''t'' 2 False)) =
      Inr (replicate 120 [1000, 250, 2, 2])"
    by (rule features_of_replicate)
      (simp add: extract_features_def ebind_def getitem_def sample_point_def)
  have m: "model_fit toy_sklearn (model (init 0 () NotJson)) (replicate 120 [1000, 250, 2, 2])
      = (Inr (), 2)"
    by (simp add: toy_sklearn_def toy_boundary_replicate)
  have sc: "scaler_fit_transform toy_sklearn (scaler (init (0::real) () NotJson))
      (replicate 120 [1000, 250, 2, 2]) = (Inr (replicate 120 [1000, 250, 2, 2]), ())"
    by (simp add: toy_sklearn_def)
  show ?thesis
    using train_model_threshold [of "replicate 119 (sample_point ''t'' 2 False)" toy_sklearn
        "init 0 () NotJson"]
      train_model_threshold [of "replicate 120 (sample_point ''t'' 2 False)" toy_sklearn
        "init 0 () NotJson" "replicate 120 [1000, 250, 2, 2]" "replicate 120 [1000, 250, 2, 2]"
        "()" 2] f m sc
    by (simp add: model_state_def init_def)
qed

section \<open>Detection before training\<close>

text \<open>
  Claim C3, as the code has it. \<open>detect_anomalies\<close> on a detector that is not trained does
  not fail: it prints that the model is not trained, returns the empty list, and changes
  nothing else, whatever the batch is.
\<close>

theorem detect_anomalies_untrained:
  "\<not> is_trained s \<Longrightarrow>
     detect_anomalies lib now s data_points = (Inr [], print NotTrainedSkipping s)"
  by (simp add: detect_anomalies_def)

theorem detect_anomalies_untrained_witness:
  "\<not> is_trained (init (0::real) () NotJson)
   \<and> detect_anomalies toy_sklearn clock (init 0 () NotJson) [sample_point ''t'' 9 True] =
       (Inr [], print NotTrainedSkipping (init 0 () NotJson))"
proof -
  have h: "\<not> is_trained (init (0::real) () NotJson)"
    by (simp add: init_def)
  show ?thesis
    using h detect_anomalies_untrained [OF h, of toy_sklearn clock "[sample_point ''t'' 9 True]"]
    by simp
qed

text \<open>
  As stated, the claim asks for a \<^verbatim>\<open>ModelNotTrainedError\<close> and forbids an empty result:
  here a fresh detector returns the empty list for a batch of one point.
\<close>

theorem detect_anomalies_untrained_counterexample:
  "fst (detect_anomalies toy_sklearn clock (init 0 () NotJson) [sample_point ''t'' 9 True]) = Inr []"
  by (simp add: detect_anomalies_def init_def)

section \<open>The detection loop\<close>

lemma new_anomaly_Inr:
  "new_anomaly t p = Inr a \<longleftrightarrow>
     (\<exists>ts al sp pi vib ef sev. timestamp p = Some ts \<and> altitude p = Some al \<and>
        airspeed p = Some sp \<and> pitch p = Some pi \<and> vibration p = Some vib \<and>
        engineFailure p = Some ef \<and> calculate_severity p = Inr sev \<and>
        a = \<lparr>an_timestamp = ts, an_altitude = al, an_airspeed = sp, an_pitch = pi,
          an_vibration = vib, an_engineFailure = ef, an_detected_at = t, an_severity = sev\<rparr>)"
  by (auto simp: new_anomaly_def ebind_def getitem_def split: option.splits sum.splits)

lemma new_anomaly_engineFailure:
  "new_anomaly t p = Inr a \<Longrightarrow> engineFailure p = Some (an_engineFailure a)"
  by (auto simp: new_anomaly_Inr)

lemma new_anomaly_severity:
  "new_anomaly t p = Inr a \<Longrightarrow> calculate_severity p = Inr (an_severity a)"
  by (auto simp: new_anomaly_Inr)

lemma misjudged_simps [simp]:
  "model (misjudged p s) = model s"
  "scaler (misjudged p s) = scaler s"
  "is_trained (misjudged p s) = is_trained s"
  "training_data (misjudged p s) = training_data s @ [p]"
  "incorrect_anomalies (misjudged p s) = incorrect_anomalies s + 1"
  "anomalies_file (misjudged p s) = anomalies_file s"
  "console (misjudged p s) = console s @ [NotAnAnomaly p]"
  by (simp_all add: misjudged_def)

lemma misjudged_eq:
  "(print (NotAnAnomaly p) s)
      \<lparr>training_data := training_data s @ [p],
        incorrect_anomalies := incorrect_anomalies s + 1\<rparr> = misjudged p s"
  by (simp add: misjudged_def print_def)

lemma model_state_simps [simp]:
  "model_state (print e s) = model_state s"
  "model_state (misjudged p s) = model_state s"
  "model_state (s\<lparr>incorrect_anomalies := n\<rparr>) = model_state s"
  by (simp_all add: model_state_def)

text \<open>The four ways one more entry of the batch can be processed when the loop ends well.\<close>

lemma detect_loop_Cons_cases:
  assumes "detect_loop lib now s ((i, p, pred) # rest) acc = (Inr out, s')"
  obtains
    (inlier) "pred \<noteq> - 1"
      "detect_loop lib now s rest acc = (Inr out, s')"
  | (confirmed) a where "pred = - 1" "new_anomaly (now i) p = Inr a"
      "engineFailure p = Some True"
      "detect_loop lib now (print (AnomalyDetected p) s) rest (acc @ [a]) = (Inr out, s')"
  | (counted) a where "pred = - 1" "new_anomaly (now i) p = Inr a"
      "engineFailure p = Some False" "incorrect_anomalies s + 1 \<le> 10"
      "detect_loop lib now (misjudged p s) rest acc = (Inr out, s')"
  | (retrained) a trained s4 where "pred = - 1" "new_anomaly (now i) p = Inr a"
      "engineFailure p = Some False" "incorrect_anomalies s + 1 > 10"
      "train_model lib (print Retraining (misjudged p s)) (training_data s @ [p])
         = (Inr trained, s4)"
      "detect_loop lib now (s4\<lparr>incorrect_anomalies := 0\<rparr>) rest acc = (Inr out, s')"
proof (cases "pred = - 1")
  case False
  with assms inlier show ?thesis by simp
next
  case True
  from assms True obtain a where a: "new_anomaly (now i) p = Inr a"
    by (auto split: sum.splits)
  note ef = new_anomaly_engineFailure [OF a]
  note m = misjudged_eq [where p = p and s = s]
  show ?thesis
  proof (cases "an_engineFailure a")
    case True
    with assms \<open>pred = - 1\<close> a ef confirmed show ?thesis by simp
  next
    case fp: False
    show ?thesis
    proof (cases "incorrect_anomalies s + 1 > 10")
      case False
      with assms True a fp have
        "detect_loop lib now (misjudged p s) rest acc = (Inr out, s')"
        by (simp add: Let_def m)
      with counted True a ef fp False show ?thesis by simp
    next
      case over: True
      obtain r s4 where tm:
        "train_model lib (print Retraining (misjudged p s)) (training_data s @ [p]) = (r, s4)"
        by (cases "train_model lib (print Retraining (misjudged p s)) (training_data s @ [p])")
      from assms True a fp over tm obtain trained where r: "r = Inr trained"
        and rest: "detect_loop lib now (s4\<lparr>incorrect_anomalies := 0\<rparr>) rest acc = (Inr out, s')"
        by (auto simp: Let_def m split: sum.splits)
      from retrained [OF True a _ over] ef fp tm r rest show ?thesis by simp
    qed
  qed
qed

lemma detect_loop_result:
  "detect_loop lib now s items acc = (Inr out, s') \<Longrightarrow>
     map Inr out =
       map Inr acc @ map (\<lambda>(i, p, pred). new_anomaly (now i) p) (filter true_positive items)
     \<and> training_data s' = training_data s @ map (\<lambda>item. fst (snd item)) (filter false_positive items)"
proof (induction items arbitrary: s acc)
  case Nil
  then show ?case by simp
next
  case (Cons item rest)
  obtain i p pred where item: "item = (i, p, pred)"
    by (cases item) auto
  from Cons.prems [unfolded item] show ?case
  proof (cases rule: detect_loop_Cons_cases)
    case inlier
    from Cons.IH [OF inlier(2)] inlier(1) item show ?thesis by simp
  next
    case (confirmed a)
    from Cons.IH [OF confirmed(4)] confirmed(1-3) item show ?thesis by simp
  next
    case (counted a)
    from Cons.IH [OF counted(5)] counted(1-3) item show ?thesis by simp
  next
    case (retrained a trained s4)
    have "training_data s4 = training_data s @ [p]"
      using train_model_frame(1) [of lib "print Retraining (misjudged p s)" "training_data s @ [p]"]
        retrained(5) by simp
    with Cons.IH [OF retrained(6)] retrained(1-3) item show ?thesis by simp
  qed
qed





text \<open>The loop over a batch in two parts: the second part starts where the first ended.\<close>

lemma detect_loop_append:
  "detect_loop lib now s (xs @ ys) acc =
     (case detect_loop lib now s xs acc of
        (Inl e, s1) \<Rightarrow> (Inl e, s1)
      | (Inr acc1, s1) \<Rightarrow> detect_loop lib now s1 ys acc1)"
proof (induction xs arbitrary: s acc)
  case Nil
  then show ?case by simp
next
  case (Cons item xs)
  obtain i p pred where item: "item = (i, p, pred)"
    by (cases item) auto
  show ?case
    unfolding item
    by (simp add: Cons.IH Let_def split: sum.splits prod.splits)
qed

text \<open>A batch that is processed to the end has every key the loop reads of its outliers.\<close>

lemma detect_loop_complete:
  "detect_loop lib now s items acc = (Inr out, s') \<Longrightarrow> (i, p, - 1) \<in> set items \<Longrightarrow>
     \<exists>a. new_anomaly (now i) p = Inr a"
proof (induction items arbitrary: s acc)
  case Nil
  then show ?case by simp
next
  case (Cons item rest)
  obtain j q pred where item: "item = (j, q, pred)"
    by (cases item) auto
  from Cons.prems(1) [unfolded item] show ?case
  proof (cases rule: detect_loop_Cons_cases)
    case inlier
    with Cons.prems(2) item have "(i, p, - 1) \<in> set rest" by auto
    from Cons.IH [OF inlier(2) this] show ?thesis .
  next
    case (confirmed a)
    show ?thesis
    proof (cases "(i, p, - 1) = item")
      case True
      with confirmed(2) item show ?thesis by auto
    next
      case False
      with Cons.prems(2) have "(i, p, - 1) \<in> set rest" by auto
      from Cons.IH [OF confirmed(4) this] show ?thesis .
    qed
  next
    case (counted a)
    show ?thesis
    proof (cases "(i, p, - 1) = item")
      case True
      with counted(2) item show ?thesis by auto
    next
      case False
      with Cons.prems(2) have "(i, p, - 1) \<in> set rest" by auto
      from Cons.IH [OF counted(5) this] show ?thesis .
    qed
  next
    case (retrained a trained s4)
    show ?thesis
    proof (cases "(i, p, - 1) = item")
      case True
      with retrained(2) item show ?thesis by auto
    next
      case False
      with Cons.prems(2) have "(i, p, - 1) \<in> set rest" by auto
      from Cons.IH [OF retrained(6) this] show ?thesis .
    qed
  qed
qed

text \<open>
  The loop runs to its end when scikit-learn fits without raising, the points of the
  buffer have their features, and the outliers of the batch have every key the loop reads.
\<close>

lemma train_model_runs:
  assumes "reliable lib" and "features_of td = Inr F"
  shows "\<exists>r. fst (train_model lib s td) = Inr r"
proof -
  from assms(1) obtain Y sc where "scaler_fit_transform lib (scaler s) F = (Inr Y, sc)"
    unfolding reliable_def by blast
  moreover from assms(1) obtain fo where "model_fit lib (model s) Y = (Inr (), fo)"
    unfolding reliable_def by blast
  ultimately show ?thesis
    using assms(2) by (auto simp: train_model_def)
qed

lemma new_anomaly_features:
  "new_anomaly t p = Inr a \<Longrightarrow> \<exists>f. extract_features p = Inr f"
  by (auto simp: new_anomaly_Inr extract_features_def ebind_def getitem_def)

lemma detect_loop_runs:
  assumes "reliable lib"
  shows "\<forall>item \<in> set items. snd (snd item) = - 1 \<longrightarrow>
             (\<exists>a. new_anomaly (now (fst item)) (fst (snd item)) = Inr a) \<Longrightarrow>
         \<exists>F. features_of (training_data s) = Inr F \<Longrightarrow>
         \<exists>out. fst (detect_loop lib now s items acc) = Inr out"
proof (induction items arbitrary: s acc)
  case Nil
  then show ?case by simp
next
  case (Cons item rest)
  obtain i p pred where item: "item = (i, p, pred)"
    by (cases item) auto
  from Cons.prems(1) have rest: "\<forall>item \<in> set rest. snd (snd item) = - 1 \<longrightarrow>
      (\<exists>a. new_anomaly (now (fst item)) (fst (snd item)) = Inr a)"
    by simp
  show ?case
  proof (cases "pred = - 1")
    case False
    with Cons.IH [OF rest Cons.prems(2)] item show ?thesis by simp
  next
    case True
    with Cons.prems(1) item obtain a where a: "new_anomaly (now i) p = Inr a"
      by auto
    from new_anomaly_features [OF a] obtain f where f: "extract_features p = Inr f" ..
    from Cons.prems(2) obtain F where F: "features_of (training_data s) = Inr F" ..
    from f F have grown: "features_of (training_data s @ [p]) = Inr (F @ [f])"
      by (simp add: features_of_append ebind_def)
    show ?thesis
    proof (cases "an_engineFailure a")
      case tp: True
      have "\<exists>F. features_of (training_data (print (AnomalyDetected p) s)) = Inr F"
        using F by simp
      from Cons.IH [OF rest this] True a tp item show ?thesis by simp
    next
      case fp: False
      show ?thesis
      proof (cases "incorrect_anomalies s + 1 > 10")
        case False
        have "\<exists>F. features_of (training_data (misjudged p s)) = Inr F"
          using grown by simp
        from Cons.IH [OF rest this, of acc] True a fp False item show ?thesis
          by (simp add: Let_def misjudged_eq)
      next
        case over: True
        obtain r s4 where tm:
          "train_model lib (print Retraining (misjudged p s)) (training_data s @ [p]) = (r, s4)"
          by (cases "train_model lib (print Retraining (misjudged p s)) (training_data s @ [p])")
        from train_model_runs [OF assms grown, of "print Retraining (misjudged p s)"] tm
        obtain trained where r: "r = Inr trained" by auto
        have "training_data s4 = training_data s @ [p]"
          using train_model_frame(1) [of lib "print Retraining (misjudged p s)"
              "training_data s @ [p]"] tm by simp
        with grown have "\<exists>F. features_of (training_data (s4\<lparr>incorrect_anomalies := 0\<rparr>)) = Inr F"
          by simp
        from Cons.IH [OF rest this, of acc] True a fp over item tm r show ?thesis
          by (simp add: Let_def misjudged_eq)
      qed
    qed
  qed
qed

subsection \<open>From the loop to \<open>detect_anomalies\<close>\<close>

lemma detect_anomalies_loop:
  "is_trained s \<Longrightarrow> predict_batch lib s pts = Inr preds \<Longrightarrow>
     detect_anomalies lib now s pts = detect_loop lib now s (enumerate 0 (zip pts preds)) []"
  by (simp add: detect_anomalies_def)

lemma enumerated_item:
  "i < length pts \<Longrightarrow> i < length preds \<Longrightarrow>
     (i, pts ! i, preds ! i) \<in> set (enumerate 0 (zip pts preds))"
  by (simp add: in_set_enumerate_eq)

lemma count_list_distinct:
  "distinct xs \<Longrightarrow> x \<in> set xs \<Longrightarrow> count_list xs x = 1"
  by (induction xs) (auto simp: count_list_0_iff)

lemma false_positives_positions:
  "map (\<lambda>item. fst (snd item)) (false_positives pts preds) =
     map (\<lambda>j. pts ! j) (map fst (false_positives pts preds))"
  by (auto simp: false_positives_def in_set_enumerate_eq)

lemma distinct_false_positive_positions:
  "distinct (map fst (false_positives pts preds))"
  unfolding false_positives_def by (rule distinct_map_filter) simp

lemma distinct_false_positive_points:
  assumes "distinct pts"
  shows "distinct (map (\<lambda>item. fst (snd item)) (false_positives pts preds))"
proof -
  have "map (\<lambda>item. fst (snd item)) (enumerate 0 (zip pts preds)) =
      map fst (map snd (enumerate 0 (zip pts preds)))"
    by (simp only: map_map o_def)
  also have "\<dots> = map fst (zip pts preds)"
    by (simp only: map_snd_enumerate)
  also have "\<dots> = take (min (length pts) (length preds)) pts"
    by (rule map_fst_zip_take)
  finally have "distinct (map (\<lambda>item. fst (snd item)) (enumerate 0 (zip pts preds)))"
    using assms by simp
  then show ?thesis
    unfolding false_positives_def by (rule distinct_map_filter)
qed

text \<open>
  So a detection call on a batch runs to its end when scikit-learn never raises in
  fitting, the labels of the batch were computed, every point of the batch has a timestamp
  and an \<^verbatim>\<open>engineFailure\<close> flag, and the points of the buffer have their features.
\<close>

lemma new_anomaly_runs:
  "\<not> lacks_feature p \<Longrightarrow> timestamp p \<noteq> None \<Longrightarrow> engineFailure p \<noteq> None \<Longrightarrow>
     \<exists>a. new_anomaly t p = Inr a"
  by (auto simp: new_anomaly_def calculate_severity_def ebind_def getitem_def lacks_feature_def)

lemma detect_anomalies_runs:
  assumes "reliable lib"
    and "predict_batch lib s pts = Inr preds"
    and "\<forall>p \<in> set pts. timestamp p \<noteq> None \<and> engineFailure p \<noteq> None"
    and "\<exists>F. features_of (training_data s) = Inr F"
  shows "\<exists>out. fst (detect_anomalies lib now s pts) = Inr out"
proof (cases "is_trained s")
  case False
  then show ?thesis by (simp add: detect_anomalies_def)
next
  case True
  have complete: "\<not> lacks_feature p" if "p \<in> set pts" for p
  proof
    assume "lacks_feature p"
    from features_of_lacking [OF that this] assms(2) show False
      by (auto simp: predict_batch_def ebind_def)
  qed
  have "\<forall>item \<in> set (enumerate 0 (zip pts preds)). snd (snd item) = - 1 \<longrightarrow>
      (\<exists>a. new_anomaly (now (fst item)) (fst (snd item)) = Inr a)"
  proof (intro ballI impI)
    fix item
    assume mem: "item \<in> set (enumerate 0 (zip pts preds))"
    obtain i p pred where item: "item = (i, p, pred)"
      by (cases item) auto
    from mem item have "i < length pts" and "p = pts ! i"
      by (auto simp: in_set_enumerate_eq)
    with item have "fst (snd item) \<in> set pts"
      by simp
    with complete assms(3) show "\<exists>a. new_anomaly (now (fst item)) (fst (snd item)) = Inr a"
      by (intro new_anomaly_runs) auto
  qed
  from detect_loop_runs [OF assms(1) this assms(4)] True assms(2) show ?thesis
    by (simp add: detect_anomalies_def)
qed

section \<open>Feedback on false positives\<close>


text \<open>
  Claim C2. Take a detection call that runs to its end, and a point of the batch that is
  labelled outlier and whose \<^verbatim>\<open>engineFailure\<close> is false. No anomaly built from this
  point is in the list returned. The buffer afterwards is the buffer before followed by
  the false positives of the batch in their order, one entry for each position of the
  batch that holds one, and the position of this point is among them exactly once. So
  when the points of the batch are distinct and the point was not in the buffer before,
  it is in the buffer exactly once.
\<close>

theorem false_positive_fed_back:
  assumes "is_trained s"
    and "predict_batch lib s pts = Inr preds"
    and "fst (detect_anomalies lib now s pts) = Inr out"
    and "i < length pts" and "i < length preds"
    and "preds ! i = - 1"
    and "engineFailure (pts ! i) = Some False"
  shows "(\<forall>t a. new_anomaly t (pts ! i) = Inr a \<longrightarrow> a \<notin> set out)
     \<and> training_data (snd (detect_anomalies lib now s pts)) =
         training_data s @ map (\<lambda>j. pts ! j) (map fst (false_positives pts preds))
     \<and> count_list (map fst (false_positives pts preds)) i = 1
     \<and> (distinct pts \<and> pts ! i \<notin> set (training_data s) \<longrightarrow>
          count_list (training_data (snd (detect_anomalies lib now s pts))) (pts ! i) = 1)"
proof -
  let ?items = "enumerate 0 (zip pts preds)"
  let ?s' = "snd (detect_anomalies lib now s pts)"
  let ?fed = "map (\<lambda>item. fst (snd item)) (false_positives pts preds)"
  from assms(1-3) have run: "detect_loop lib now s ?items [] = (Inr out, ?s')"
    by (simp add: detect_anomalies_loop prod_eq_iff)
  note result = detect_loop_result [OF run]
  have item: "(i, pts ! i, - 1) \<in> set ?items"
    using enumerated_item [OF assms(4,5)] assms(6) by simp
  have excluded: "\<forall>t a. new_anomaly t (pts ! i) = Inr a \<longrightarrow> a \<notin> set out"
  proof (intro allI impI notI)
    fix t a
    assume a: "new_anomaly t (pts ! i) = Inr a" and "a \<in> set out"
    let ?built = "\<lambda>(i, p, pred). new_anomaly (now i) p"
    from result have built: "map Inr out = map ?built (filter true_positive ?items)"
      by simp
    from \<open>a \<in> set out\<close> have "Inr a \<in> set (map ?built (filter true_positive ?items))"
      by (simp add: built [symmetric])
    then have "Inr a \<in> ?built ` set (filter true_positive ?items)"
      by (simp only: set_map)
    then obtain item where mem: "item \<in> set (filter true_positive ?items)"
      and eq: "Inr a = ?built item"
      by (rule imageE)
    obtain j q pred where item: "item = (j, q, pred)"
      by (cases item) auto
    from mem item have "engineFailure q = Some True"
      by simp
    moreover from eq item have "new_anomaly (now j) q = Inr a"
      by simp
    ultimately have "an_engineFailure a"
      using new_anomaly_engineFailure [of "now j" q a] by simp
    moreover have "\<not> an_engineFailure a"
      using new_anomaly_engineFailure [OF a] assms(7) by simp
    ultimately show False by simp
  qed
  have buffer: "training_data ?s' = training_data s @ ?fed"
    using result by (simp add: false_positives_def)
  have "i \<in> set (map fst (false_positives pts preds))"
    using item assms(7) by (force simp: false_positives_def)
  then have once: "count_list (map fst (false_positives pts preds)) i = 1"
    by (rule count_list_distinct [OF distinct_false_positive_positions])
  have "count_list (training_data ?s') (pts ! i) = 1"
    if "distinct pts" and fresh: "pts ! i \<notin> set (training_data s)"
  proof -
    have "pts ! i \<in> set ?fed"
      using item assms(7) by (force simp: false_positives_def)
    with distinct_false_positive_points [OF that(1)] have "count_list ?fed (pts ! i) = 1"
      by (rule count_list_distinct)
    with fresh buffer show ?thesis
      by (simp add: count_list_app count_list_0_iff)
  qed
  with excluded buffer once show ?thesis
    by (simp add: false_positives_positions)
qed

text \<open>
  Claim C4, as the code has it. Of a point labelled outlier whose \<^verbatim>\<open>engineFailure\<close> is
  true, the anomaly list returned by a call that runs to its end holds the anomaly record,
  with the severity of the point's vibration. A point labelled outlier that has no
  \<^verbatim>\<open>engineFailure\<close> key is not taken for true: the detection call raises and returns
  no list. When the loop gets to this point, the entries of the batch before it processed
  without an error, and the point has a timestamp, the error is
  \<^verbatim>\<open>KeyError('engineFailure')\<close>.
\<close>

theorem outlier_engine_failure:
  assumes "is_trained s"
    and "predict_batch lib s pts = Inr preds"
    and "i < length pts" and "i < length preds"
    and "preds ! i = - 1"
  shows "(engineFailure (pts ! i) = Some True \<and> fst (detect_anomalies lib now s pts) = Inr out \<longrightarrow>
           (\<exists>a \<in> set out. new_anomaly (now i) (pts ! i) = Inr a \<and>
              calculate_severity (pts ! i) = Inr (an_severity a)))
     \<and> (engineFailure (pts ! i) = None \<longrightarrow>
           (\<exists>e. fst (detect_anomalies lib now s pts) = Inl e))
     \<and> (engineFailure (pts ! i) = None \<and> timestamp (pts ! i) \<noteq> None \<and>
         fst (detect_loop lib now s (take i (enumerate 0 (zip pts preds))) []) = Inr before \<longrightarrow>
           fst (detect_anomalies lib now s pts) = Inl (KeyError ''engineFailure''))"
proof -
  let ?items = "enumerate 0 (zip pts preds)"
  let ?s' = "snd (detect_anomalies lib now s pts)"
  have item: "(i, pts ! i, - 1) \<in> set ?items"
    using enumerated_item [OF assms(3,4)] assms(5) by simp
  have run: "detect_loop lib now s ?items [] = (Inr out', ?s')"
    if "fst (detect_anomalies lib now s pts) = Inr out'" for out'
    using assms(1,2) that by (simp add: detect_anomalies_loop prod_eq_iff)
  have reported: "\<exists>a \<in> set out. new_anomaly (now i) (pts ! i) = Inr a \<and>
      calculate_severity (pts ! i) = Inr (an_severity a)"
    if true: "engineFailure (pts ! i) = Some True"
      and ok: "fst (detect_anomalies lib now s pts) = Inr out"
  proof -
    from item true have "(i, pts ! i, - 1) \<in> set (filter true_positive ?items)"
      by simp
    then have "new_anomaly (now i) (pts ! i) \<in>
        set (map (\<lambda>(i, p, pred). new_anomaly (now i) p) (filter true_positive ?items))"
      by force
    with detect_loop_result [OF run [OF ok]]
    have "new_anomaly (now i) (pts ! i) \<in> set (map Inr out)"
      by simp
    then obtain a where "a \<in> set out" and "new_anomaly (now i) (pts ! i) = Inr a"
      by auto
    with new_anomaly_severity [of "now i" "pts ! i" a] show ?thesis
      by auto
  qed
  have raised: "\<exists>e. fst (detect_anomalies lib now s pts) = Inl e"
    if unknown: "engineFailure (pts ! i) = None"
  proof (cases "fst (detect_anomalies lib now s pts)")
    case (Inl e)
    then show ?thesis by simp
  next
    case (Inr out')
    from detect_loop_complete [OF run [OF Inr] item]
    obtain a where "new_anomaly (now i) (pts ! i) = Inr a" ..
    with unknown show ?thesis
      by (simp add: new_anomaly_Inr)
  qed
  have key_error: "fst (detect_anomalies lib now s pts) = Inl (KeyError ''engineFailure'')"
    if unknown: "engineFailure (pts ! i) = None"
      and stamped: "timestamp (pts ! i) \<noteq> None"
      and reached: "fst (detect_loop lib now s (take i ?items) []) = Inr before"
  proof -
    have "\<not> lacks_feature (pts ! i)"
    proof
      assume "lacks_feature (pts ! i)"
      from features_of_lacking [OF nth_mem [OF assms(3)] this] assms(2) show False
        by (auto simp: predict_batch_def ebind_def)
    qed
    with unknown stamped
    have built: "new_anomaly (now i) (pts ! i) = Inl (KeyError ''engineFailure'')"
      by (auto simp: new_anomaly_def ebind_def getitem_def lacks_feature_def)
    from assms(3,4) have len: "i < length ?items"
      by simp
    then have "?items ! i = (i, pts ! i, preds ! i)"
      using assms(3,4) by (simp add: nth_enumerate_eq)
    with id_take_nth_drop [OF len] assms(5)
    have split: "?items = take i ?items @ (i, pts ! i, - 1) # drop (Suc i) ?items"
      by simp
    obtain r s1 where first: "detect_loop lib now s (take i ?items) [] = (r, s1)"
      by (cases "detect_loop lib now s (take i ?items) []")
    with reached have r: "r = Inr before"
      by simp
    have "detect_loop lib now s ?items [] =
        detect_loop lib now s (take i ?items @ (i, pts ! i, - 1) # drop (Suc i) ?items) []"
      using split by simp
    also have "\<dots> = detect_loop lib now s1 ((i, pts ! i, - 1) # drop (Suc i) ?items) before"
      by (simp add: detect_loop_append first r)
    also have "\<dots> = (Inl (KeyError ''engineFailure''), s1)"
      by (simp add: built)
    finally show ?thesis
      using assms(1,2) by (simp add: detect_anomalies_loop)
  qed
  from reported raised key_error show ?thesis by blast
qed

text \<open>
  Claim C6. When a false positive takes the counter beyond 10 while the buffer, with this
  point appended, holds fewer than 120 points, the retrain is announced and refused: the
  model state stays as it was, the counter is set to 0 all the same, and the loop goes on
  with the rest of the batch.
\<close>

theorem retrain_below_minimum:
  assumes "pred = - 1"
    and "new_anomaly (now i) p = Inr a"
    and "engineFailure p = Some False"
    and "incorrect_anomalies s \<ge> 10"
    and "length (training_data s @ [p]) < 120"
  shows "detect_loop lib now s ((i, p, pred) # rest) acc =
           detect_loop lib now
             ((print NotEnoughData (print Retraining (misjudged p s)))\<lparr>incorrect_anomalies := 0\<rparr>)
             rest acc
     \<and> model_state
          ((print NotEnoughData (print Retraining (misjudged p s)))\<lparr>incorrect_anomalies := 0\<rparr>)
         = model_state s"
proof -
  from assms(2,3) have "\<not> an_engineFailure a"
    using new_anomaly_engineFailure [of "now i" p a] by simp
  with assms show ?thesis
    by (simp add: Let_def misjudged_eq train_model_def)
qed

text \<open>
  Claim C10. In a detection call that runs to its end, which points become anomalies and
  which are fed back to the buffer is settled by the labels computed before the loop, from
  the scaler and the model the detector had when the call began: a retrain inside the loop
  changes the model and leaves those labels as they are.
\<close>

theorem labels_fixed_at_start:
  assumes "is_trained s"
    and "predict_batch lib s pts = Inr preds"
    and "fst (detect_anomalies lib now s pts) = Inr out"
  shows "map Inr out = map (\<lambda>(i, p, pred). new_anomaly (now i) p) (true_positives pts preds)
     \<and> training_data (snd (detect_anomalies lib now s pts)) =
         training_data s @ map (\<lambda>item. fst (snd item)) (false_positives pts preds)"
proof -
  from assms have "detect_loop lib now s (enumerate 0 (zip pts preds)) [] =
      (Inr out, snd (detect_anomalies lib now s pts))"
    by (simp add: detect_anomalies_loop prod_eq_iff)
  from detect_loop_result [OF this] show ?thesis
    by (simp add: true_positives_def false_positives_def)
qed

section \<open>Points without a feature\<close>

text \<open>
  Claim C9, as the code has it. For a point that lacks one of altitude, airspeed, pitch
  and vibration, \<open>extract_features\<close> raises a \<^verbatim>\<open>KeyError\<close> for one of these keys. In
  \<open>detect_anomalies\<close> on a trained detector the error ends the call before any point of
  the batch is scored, the detector left as it was. In a pass of the detection loop with
  such a point among the points to score, the handler of the loop catches the error: the
  pass prints it and sleeps 5 seconds, and nothing of the batch is scored or saved.
\<close>

theorem missing_feature_aborts_batch:
  "(lacks_feature p \<longrightarrow>
      (\<exists>k \<in> {''altitude'', ''airspeed'', ''pitch'', ''vibration''}.
         extract_features p = Inl (KeyError k)))
   \<and> (is_trained s \<and> p \<in> set pts \<and> lacks_feature p \<longrightarrow>
      (\<exists>k. detect_anomalies lib now s pts = (Inl (KeyError k), s)))
   \<and> (is_trained s \<and> p \<in> set new_data \<and> \<not> get_trainingPhase p \<and> lacks_feature p \<longrightarrow>
      (\<exists>k. run_detection_cycle lib now s new_data =
         (5, print (LoopError (KeyError k))
               (print (Detecting (length (filter (\<lambda>d. \<not> get_trainingPhase d) new_data))) s))))"
proof -
  have first: "\<exists>k \<in> {''altitude'', ''airspeed'', ''pitch'', ''vibration''}.
      extract_features p = Inl (KeyError k)" if "lacks_feature p"
    using that
    by (auto simp: lacks_feature_def extract_features_def ebind_def getitem_def
        split: option.splits)
  have second: "\<exists>k. detect_anomalies lib now s' pts' = (Inl (KeyError k), s')"
    if "is_trained s'" and "p \<in> set pts'" and "lacks_feature p" for s' pts'
  proof -
    from features_of_lacking [OF that(2,3)] obtain k where
      "features_of pts' = Inl (KeyError k)" ..
    with that(1) show ?thesis
      by (simp add: detect_anomalies_def predict_batch_def ebind_def)
  qed
  have third: "\<exists>k. run_detection_cycle lib now s new_data =
      (5, print (LoopError (KeyError k))
            (print (Detecting (length (filter (\<lambda>d. \<not> get_trainingPhase d) new_data))) s))"
    if trained: "is_trained s" and mem: "p \<in> set new_data"
      and scoring: "\<not> get_trainingPhase p" and lacks: "lacks_feature p"
  proof -
    let ?testing = "filter (\<lambda>d. \<not> get_trainingPhase d) new_data"
    from mem scoring have p: "p \<in> set ?testing" by simp
    with mem have nonempty: "?testing \<noteq> []" "new_data \<noteq> []"
      by (auto simp: filter_empty_conv)
    from second [of "print (Detecting (length ?testing)) s" ?testing] trained p lacks
    obtain k where "detect_anomalies lib now (print (Detecting (length ?testing)) s) ?testing =
        (Inl (KeyError k), print (Detecting (length ?testing)) s)"
      by auto
    with trained nonempty have "run_detection_cycle lib now s new_data =
        (5, print (LoopError (KeyError k)) (print (Detecting (length ?testing)) s))"
      by (simp add: run_detection_cycle_def cycle_body_def Let_def)
    then show ?thesis ..
  qed
  from first second [of s pts] third show ?thesis by blast
qed

section \<open>The properties on concrete runs\<close>

lemma features_of_baseline:
  "features_of (baseline @ pts) =
     ebind (features_of pts) (\<lambda>gs. Inr (replicate 120 [1000, 250, 2, 2] @ gs))"
proof -
  have "features_of baseline = Inr (replicate 120 [1000, 250, 2, 2])"
    unfolding baseline_def
    by (rule features_of_replicate)
      (simp add: extract_features_def ebind_def getitem_def sample_point_def)
  then show ?thesis
    by (simp add: features_of_append ebind_def)
qed

lemma length_baseline [simp]: "length baseline = 120"
  by (simp add: baseline_def)

lemmas run_simps =
  detect_anomalies_def predict_batch_def extract_features_def new_anomaly_def
  calculate_severity_def ebind_def getitem_def train_model_def print_def Let_def
  sample_point_def sample_anomaly_def toy_sklearn_def toy_detector_def clock_def
  features_of_baseline toy_boundary_replicate

lemma reliable_toy_sklearn: "reliable toy_sklearn"
  by (simp add: reliable_def toy_sklearn_def)

theorem retrain_below_minimum_witness:
  "detect_loop toy_sklearn clock (toy_detector 5 [] 10) [(0, sample_point ''t'' 9 False, - 1)] [] =
     (Inr [], (print NotEnoughData (print Retraining
        (misjudged (sample_point ''t'' 9 False) (toy_detector 5 [] 10))))
        \<lparr>incorrect_anomalies := 0\<rparr>)
   \<and> model_state ((print NotEnoughData (print Retraining
        (misjudged (sample_point ''t'' 9 False) (toy_detector 5 [] 10))))
        \<lparr>incorrect_anomalies := 0\<rparr>) = model_state (toy_detector 5 [] 10)"
proof -
  have built: "new_anomaly (clock 0) (sample_point ''t'' 9 False) =
      Inr ((sample_anomaly ''t'' 9 CRITICAL)\<lparr>an_engineFailure := False\<rparr>)"
    by (simp add: run_simps)
  have flag: "engineFailure (sample_point ''t'' 9 False) = Some False"
    by (simp add: sample_point_def)
  have counter: "incorrect_anomalies (toy_detector 5 [] 10) \<ge> 10"
    by (simp add: toy_detector_def)
  have few: "length (training_data (toy_detector 5 [] 10) @ [sample_point ''t'' 9 False]) < 120"
    by (simp add: toy_detector_def)
  from retrain_below_minimum [where now = clock and i = 0 and lib = toy_sklearn
      and rest = "[]" and acc = "[]", OF refl built flag counter few]
  show ?thesis by simp
qed







lemma six_run:
  "fst (detect_anomalies toy_sklearn clock (toy_detector 5 baseline 0) six_false_positives)
     = Inr []"
  by (simp add: run_simps six_false_positives_def)

lemma six_labels:
  "predict_batch toy_sklearn (toy_detector 5 baseline 0) six_false_positives =
     Inr [- 1, - 1, - 1, - 1, - 1, - 1]"
  by (simp add: run_simps six_false_positives_def)




theorem false_positive_fed_back_witness:
  "new_anomaly (clock 0) (sample_point ''a'' 9 False) =
     Inr ((sample_anomaly ''a'' 9 CRITICAL)\<lparr>an_engineFailure := False\<rparr>)
   \<and> (sample_anomaly ''a'' 9 CRITICAL)\<lparr>an_engineFailure := False\<rparr>
       \<notin> set [sample_anomaly ''b'' 9 CRITICAL]
   \<and> training_data (snd (detect_anomalies toy_sklearn clock (toy_detector 5 [] 0)
        [sample_point ''a'' 9 False, sample_point ''b'' 9 True])) = [sample_point ''a'' 9 False]
   \<and> count_list (training_data (snd (detect_anomalies toy_sklearn clock (toy_detector 5 [] 0)
        [sample_point ''a'' 9 False, sample_point ''b'' 9 True]))) (sample_point ''a'' 9 False) = 1"
proof -
  let ?pts = "[sample_point ''a'' 9 False, sample_point ''b'' 9 True]"
  have trained: "is_trained (toy_detector 5 [] 0)"
    by (simp add: toy_detector_def)
  have labels: "predict_batch toy_sklearn (toy_detector 5 [] 0) ?pts = Inr [- 1, - 1]"
    by (simp add: run_simps)
  have run: "fst (detect_anomalies toy_sklearn clock (toy_detector 5 [] 0) ?pts) =
      Inr [sample_anomaly ''b'' 9 CRITICAL]"
    by (simp add: run_simps)
  have flag: "engineFailure (?pts ! 0) = Some False"
    by (simp add: sample_point_def)
  have fresh: "distinct ?pts \<and> ?pts ! 0 \<notin> set (training_data (toy_detector 5 [] 0))"
    by (simp add: sample_point_def toy_detector_def)
  have positions: "map fst (false_positives ?pts [- 1, - 1]) = [0]"
    by (simp add: false_positives_def sample_point_def)
  have built: "new_anomaly (clock 0) (sample_point ''a'' 9 False) =
      Inr ((sample_anomaly ''a'' 9 CRITICAL)\<lparr>an_engineFailure := False\<rparr>)"
    by (simp add: run_simps)
  have fed: "(\<forall>t a. new_anomaly t (?pts ! 0) = Inr a \<longrightarrow>
        a \<notin> set [sample_anomaly ''b'' 9 CRITICAL])
    \<and> training_data (snd (detect_anomalies toy_sklearn clock (toy_detector 5 [] 0) ?pts)) =
        training_data (toy_detector 5 [] 0) @
        map (\<lambda>j. ?pts ! j) (map fst (false_positives ?pts [- 1, - 1]))
    \<and> count_list (map fst (false_positives ?pts [- 1, - 1])) 0 = 1
    \<and> (distinct ?pts \<and> ?pts ! 0 \<notin> set (training_data (toy_detector 5 [] 0)) \<longrightarrow>
        count_list (training_data (snd (detect_anomalies toy_sklearn clock (toy_detector 5 [] 0)
          ?pts))) (?pts ! 0) = 1)"
    by (rule false_positive_fed_back [OF trained labels run _ _ _ flag]) simp_all
  from fed built have "(sample_anomaly ''a'' 9 CRITICAL)\<lparr>an_engineFailure := False\<rparr>
      \<notin> set [sample_anomaly ''b'' 9 CRITICAL]"
    by (metis nth_Cons_0)
  with fed fresh positions built show ?thesis
    by (simp add: toy_detector_def)
qed

theorem outlier_engine_failure_witness:
  "(\<exists>a \<in> set [sample_anomaly ''b'' 9 CRITICAL].
       new_anomaly (clock 0) (sample_point ''b'' 9 True) = Inr a \<and>
       calculate_severity (sample_point ''b'' 9 True) = Inr (an_severity a))
   \<and> (\<exists>e. fst (detect_anomalies toy_sklearn clock (toy_detector 5 [] 0)
          [(sample_point ''c'' 9 True)\<lparr>engineFailure := None\<rparr>]) = Inl e)
   \<and> fst (detect_loop toy_sklearn clock (toy_detector 5 [] 0)
        [(0, sample_point ''b'' 9 True, - 1)] []) = Inr [sample_anomaly ''b'' 9 CRITICAL]
   \<and> fst (detect_anomalies toy_sklearn clock (toy_detector 5 [] 0)
        [sample_point ''b'' 9 True, (sample_point ''c'' 9 True)\<lparr>engineFailure := None\<rparr>]) =
       Inl (KeyError ''engineFailure'')"
proof -
  let ?known = "[sample_point ''b'' 9 True]"
  let ?unknown = "[(sample_point ''c'' 9 True)\<lparr>engineFailure := None\<rparr>]"
  let ?both = "[sample_point ''b'' 9 True, (sample_point ''c'' 9 True)\<lparr>engineFailure := None\<rparr>]"
  have trained: "is_trained (toy_detector 5 [] 0)"
    by (simp add: toy_detector_def)
  have known: "predict_batch toy_sklearn (toy_detector 5 [] 0) ?known = Inr [- 1]"
    and unknown: "predict_batch toy_sklearn (toy_detector 5 [] 0) ?unknown = Inr [- 1]"
    and both: "predict_batch toy_sklearn (toy_detector 5 [] 0) ?both = Inr [- 1, - 1]"
    by (simp_all add: run_simps)
  have run: "fst (detect_anomalies toy_sklearn clock (toy_detector 5 [] 0) ?known) =
      Inr [sample_anomaly ''b'' 9 CRITICAL]"
    by (simp add: run_simps)
  have flags: "engineFailure (?known ! 0) = Some True" "engineFailure (?unknown ! 0) = None"
    "engineFailure (?both ! 1) = None" "timestamp (?both ! 1) \<noteq> None"
    by (simp_all add: sample_point_def)
  have reached: "fst (detect_loop toy_sklearn clock (toy_detector 5 [] 0)
      (take 1 (enumerate 0 (zip ?both [- 1, - 1]))) []) = Inr [sample_anomaly ''b'' 9 CRITICAL]"
    by (simp add: run_simps)
  then have reached': "fst (detect_loop toy_sklearn clock (toy_detector 5 [] 0)
      [(0, sample_point ''b'' 9 True, - 1)] []) = Inr [sample_anomaly ''b'' 9 CRITICAL]"
    by simp
  have a: "\<exists>a \<in> set [sample_anomaly ''b'' 9 CRITICAL].
       new_anomaly (clock 0) (sample_point ''b'' 9 True) = Inr a \<and>
       calculate_severity (sample_point ''b'' 9 True) = Inr (an_severity a)"
    using outlier_engine_failure [where now = clock and i = 0
        and out = "[sample_anomaly ''b'' 9 CRITICAL]" and before = "[]", OF trained known]
      run flags(1)
    by simp
  have b: "\<exists>e. fst (detect_anomalies toy_sklearn clock (toy_detector 5 [] 0) ?unknown) = Inl e"
    using outlier_engine_failure [where now = clock and i = 0 and out = "[]" and before = "[]",
        OF trained unknown] flags(2)
    by simp
  have c: "fst (detect_anomalies toy_sklearn clock (toy_detector 5 [] 0) ?both) =
      Inl (KeyError ''engineFailure'')"
    using outlier_engine_failure [where now = clock and i = 1 and out = "[]"
        and before = "[sample_anomaly ''b'' 9 CRITICAL]", OF trained both] flags(3,4) reached
    by simp
  from a b reached' c show ?thesis by blast
qed

text \<open>
  As stated, claim C4 has a point without the key reported as an anomaly: the call on it
  raises \<^verbatim>\<open>KeyError('engineFailure')\<close>.
\<close>

theorem outlier_engine_failure_counterexample:
  "detect_anomalies toy_sklearn clock (toy_detector 5 [] 0)
     [(sample_point ''c'' 9 True)\<lparr>engineFailure := None\<rparr>] =
     (Inl (KeyError ''engineFailure''), toy_detector 5 [] 0)"
  by (simp add: run_simps)

theorem labels_fixed_at_start_witness:
  "fst (detect_anomalies toy_sklearn clock (toy_detector 5 baseline 10)
       [sample_point ''a'' 9 False, sample_point ''b'' 8 True]) = Inr [sample_anomaly ''b'' 8 HIGH]
   \<and> map Inr [sample_anomaly ''b'' 8 HIGH] =
       map (\<lambda>(i, p, pred). new_anomaly (clock i) p)
         (true_positives [sample_point ''a'' 9 False, sample_point ''b'' 8 True] [- 1, - 1])
   \<and> training_data (snd (detect_anomalies toy_sklearn clock (toy_detector 5 baseline 10)
       [sample_point ''a'' 9 False, sample_point ''b'' 8 True])) =
       baseline @ [sample_point ''a'' 9 False]
   \<and> model (snd (detect_anomalies toy_sklearn clock (toy_detector 5 baseline 10)
       [sample_point ''a'' 9 False, sample_point ''b'' 8 True])) = 9
   \<and> predict_batch toy_sklearn (snd (detect_anomalies toy_sklearn clock
       (toy_detector 5 baseline 10) [sample_point ''a'' 9 False, sample_point ''b'' 8 True]))
       [sample_point ''a'' 9 False, sample_point ''b'' 8 True] = Inr [1, 1]"
proof -
  let ?pts = "[sample_point ''a'' 9 False, sample_point ''b'' 8 True]"
  let ?s = "toy_detector 5 baseline 10"
  have trained: "is_trained ?s"
    by (simp add: toy_detector_def)
  have labels: "predict_batch toy_sklearn ?s ?pts = Inr [- 1, - 1]"
    by (simp add: run_simps)
  have run: "detect_anomalies toy_sklearn clock ?s ?pts =
      (Inr [sample_anomaly ''b'' 8 HIGH],
       ?s\<lparr>model := 9, training_data := baseline @ [sample_point ''a'' 9 False],
          incorrect_anomalies := 0,
          console := [NotAnAnomaly (sample_point ''a'' 9 False), Retraining, ModelTrained 121,
            AnomalyDetected (sample_point ''b'' 8 True)]\<rparr>)"
    by (simp add: run_simps)
  then have out: "fst (detect_anomalies toy_sklearn clock ?s ?pts) = Inr [sample_anomaly ''b'' 8 HIGH]"
    by simp
  have fed: "map (\<lambda>item. fst (snd item)) (false_positives ?pts [- 1, - 1]) =
      [sample_point ''a'' 9 False]"
    by (simp add: false_positives_def sample_point_def)
  have after: "predict_batch toy_sklearn (snd (detect_anomalies toy_sklearn clock ?s ?pts)) ?pts =
      Inr [1, 1]"
    unfolding run by (simp add: run_simps)
  have fitted: "model (snd (detect_anomalies toy_sklearn clock ?s ?pts)) = 9"
    unfolding run by simp
  from labels_fixed_at_start [OF trained labels out] out fed after fitted
  show ?thesis
    by (simp add: toy_detector_def)
qed

theorem missing_feature_aborts_batch_witness:
  "(\<exists>k \<in> {''altitude'', ''airspeed'', ''pitch'', ''vibration''}.
       extract_features ((sample_point ''c'' 9 True)\<lparr>altitude := None\<rparr>) = Inl (KeyError k))
   \<and> (\<exists>k. detect_anomalies toy_sklearn clock (toy_detector 5 [] 0)
         [sample_point ''b'' 9 True, (sample_point ''c'' 9 True)\<lparr>altitude := None\<rparr>] =
         (Inl (KeyError k), toy_detector 5 [] 0))
   \<and> (\<exists>k. run_detection_cycle toy_sklearn clock (toy_detector 5 [] 0)
         [sample_point ''b'' 9 True, (sample_point ''c'' 9 True)\<lparr>altitude := None\<rparr>] =
         (5, print (LoopError (KeyError k)) (print (Detecting 2) (toy_detector 5 [] 0))))"
proof -
  let ?p = "(sample_point ''c'' 9 True)\<lparr>altitude := None\<rparr>"
  let ?batch = "[sample_point ''b'' 9 True, ?p]"
  have lacks: "lacks_feature ?p"
    by (simp add: lacks_feature_def)
  have trained: "is_trained (toy_detector 5 [] 0)"
    by (simp add: toy_detector_def)
  have mem: "?p \<in> set ?batch"
    by simp
  have scoring: "\<not> get_trainingPhase ?p"
    by (simp add: get_trainingPhase_def sample_point_def)
  have count: "length (filter (\<lambda>d. \<not> get_trainingPhase d) ?batch) = 2"
    by (simp add: get_trainingPhase_def sample_point_def)
  from missing_feature_aborts_batch [of ?p "toy_detector 5 [] 0" ?batch toy_sklearn clock ?batch]
    lacks trained mem scoring
  show ?thesis
    unfolding count by blast
qed

text \<open>
  As stated, claim C9 has the other points of the batch processed. Alone, the first point
  of this batch is saved as an anomaly and the pass sleeps 2 seconds; followed by a point
  without altitude it is neither reported nor saved, and the pass ends in the handler.
\<close>

theorem missing_feature_aborts_batch_counterexample:
  "run_detection_cycle toy_sklearn clock (toy_detector 5 [] 0) [sample_point ''b'' 9 True] =
     (2, (toy_detector 5 [] 0)
          \<lparr>console := [Detecting 1, AnomalyDetected (sample_point ''b'' 9 True), Detected 1,
             SavedAnomalies 1],
           anomalies_file := JsonArray [sample_anomaly ''b'' 9 CRITICAL]\<rparr>)
   \<and> run_detection_cycle toy_sklearn clock (toy_detector 5 [] 0)
       [sample_point ''b'' 9 True, (sample_point ''c'' 9 True)\<lparr>altitude := None\<rparr>] =
     (5, (toy_detector 5 [] 0)
          \<lparr>console := [Detecting 2, LoopError (KeyError ''altitude'')]\<rparr>)"
  by (simp add: run_detection_cycle_def cycle_body_def get_trainingPhase_def save_anomalies_def
      run_simps)

end
